theory Spec2Isabelle
  imports Complex_Main
begin

section \<open>Errors\<close>

text \<open>
  The exceptions the modelled functions can raise. The first four are the members of
  Python's \<open>OSError\<close> class hierarchy that opening or reading a file can produce
  (\<open>OSError\<close> itself stands for every other member); the remaining ones are outside it.
\<close>

datatype error =
    FileNotFoundError
  | PermissionError
  | IsADirectoryError
  | OSError
  | ValueError
  | IndexError
  | KeyError
  | TypeError

text \<open>\<open>except OSError\<close> matches an exception exactly when it is an instance of \<open>OSError\<close>.\<close>

fun is_OSError :: "error \<Rightarrow> bool" where
  "is_OSError FileNotFoundError = True"
| "is_OSError PermissionError = True"
| "is_OSError IsADirectoryError = True"
| "is_OSError OSError = True"
| "is_OSError ValueError = False"
| "is_OSError IndexError = False"
| "is_OSError KeyError = False"
| "is_OSError TypeError = False"

section \<open>Text files and the cluster quality table\<close>

text \<open>
  Opening a path for reading either raises or yields the text of the file; a store of
  text files maps each path to that outcome. Writing a file replaces the outcome by
  the written text.
\<close>

type_synonym text_files = "string \<Rightarrow> error + string"

definition TAB :: char where "TAB = CHR 0x09"
definition NL :: char where "NL = CHR 0x0A"

text \<open>\<open>os.path.join\<close> on two components (POSIX).\<close>

definition path_join :: "string \<Rightarrow> string \<Rightarrow> string" where
  "path_join d f =
     (if f \<noteq> [] \<and> hd f = CHR ''/'' then f
      else if d = [] \<or> last d = CHR ''/'' then d @ f
      else d @ ''/'' @ f)"

subsection \<open>Rendering and reading decimal integers\<close>

definition digit_char :: "nat \<Rightarrow> char" where
  "digit_char d = char_of (48 + d)"

fun show_nat :: "nat \<Rightarrow> string" where
  "show_nat n = (if n < 10 then [digit_char n] else show_nat (n div 10) @ [digit_char (n mod 10)])"

declare show_nat.simps [simp del]

definition show_int :: "int \<Rightarrow> string" where
  "show_int i = (if i < 0 then CHR ''-'' # show_nat (nat (- i)) else show_nat (nat i))"

definition digit_val :: "char \<Rightarrow> nat option" where
  "digit_val c = (let n = (of_char c :: nat) in if 48 \<le> n \<and> n \<le> 57 then Some (n - 48) else None)"

fun parse_nat :: "nat \<Rightarrow> string \<Rightarrow> nat option" where
  "parse_nat acc [] = Some acc"
| "parse_nat acc (c # cs) =
     (case digit_val c of None \<Rightarrow> None | Some d \<Rightarrow> parse_nat (10 * acc + d) cs)"

text \<open>
  The coercion of one string field to an integer, as \<open>astype('int')\<close> applies it to each
  element: an optional sign followed by at least one decimal digit. \<open>None\<close> is the
  \<open>ValueError\<close> of an invalid literal.
\<close>

definition py_int :: "string \<Rightarrow> int option" where
  "py_int s =
     (case s of
        [] \<Rightarrow> None
      | c # cs \<Rightarrow>
          if c = CHR ''-'' then (if cs = [] then None else map_option (\<lambda>n. - int n) (parse_nat 0 cs))
          else if c = CHR ''+'' then (if cs = [] then None else map_option int (parse_nat 0 cs))
          else map_option int (parse_nat 0 s))"

subsection \<open>write_cluster_group_tsv\<close>

text \<open>
  The loop \<open>for idx, ID in enumerate(IDs)\<close>: it appends the id, then the label chosen
  from \<open>quality[idx]\<close>, which raises \<open>IndexError\<close> when \<open>quality\<close> is shorter than \<open>IDs\<close>.
\<close>

fun write_loop :: "(nat \<times> int) list \<Rightarrow> int list \<Rightarrow> int list \<times> string list
    \<Rightarrow> error + (int list \<times> string list)" where
  "write_loop [] quality acc = Inr acc"
| "write_loop ((idx, ID) # rest) quality (cluster_index, cluster_quality) =
     (if length quality \<le> idx then Inl IndexError
      else write_loop rest quality
             (cluster_index @ [ID],
              cluster_quality @
                [if quality ! idx = 0 then ''unsorted''
                 else if quality ! idx = 1 then ''good''
                 else ''noise'']))"

text \<open>
  \<open>DataFrame.to_csv(sep='\t', index=False)\<close> for the two columns \<open>cluster_id\<close> and
  \<open>group\<close>: a header line, then one line per row.
\<close>

definition to_csv :: "int list \<Rightarrow> string list \<Rightarrow> string" where
  "to_csv cluster_index cluster_quality =
     ''cluster_id'' @ [TAB] @ ''group'' @ [NL] @
     concat (map (\<lambda>(i, q). show_int i @ [TAB] @ q @ [NL]) (zip cluster_index cluster_quality))"

definition write_cluster_group_tsv ::
    "int list \<Rightarrow> int list \<Rightarrow> string \<Rightarrow> text_files \<Rightarrow> error + text_files" where
  "write_cluster_group_tsv IDs quality output_directory fs =
     (case write_loop (zip [0..<length IDs] IDs) quality ([], []) of
        Inl e \<Rightarrow> Inl e
      | Inr (cluster_index, cluster_quality) \<Rightarrow>
          Inr (fs(path_join output_directory ''cluster_group.tsv'' :=
                    Inr (to_csv cluster_index cluster_quality))))"

subsection \<open>read_cluster_group_tsv\<close>

definition is_space :: "char \<Rightarrow> bool" where
  "is_space c = (c = CHR '' '' \<or> c = TAB \<or> c = NL \<or> c = CHR 0x0D \<or> c = CHR 0x0B \<or> c = CHR 0x0C)"

text \<open>The lines of a text: it is cut at every newline.\<close>

fun split_lines :: "string \<Rightarrow> string list" where
  "split_lines [] = [[]]"
| "split_lines (c # cs) =
     (if c = NL then [] # split_lines cs
      else (case split_lines cs of [] \<Rightarrow> [[c]] | l # ls \<Rightarrow> (c # l) # ls))"

text \<open>\<open>str.split()\<close> with no delimiter: the maximal runs of non-whitespace characters.\<close>

fun split_ws :: "string \<Rightarrow> string \<Rightarrow> string list" where
  "split_ws w [] = (if w = [] then [] else [w])"
| "split_ws w (c # cs) =
     (if is_space c then (if w = [] then split_ws [] cs else w # split_ws [] cs)
      else split_ws (w @ [c]) cs)"

text \<open>
  What \<open>np.genfromtxt(filename, dtype='str')\<close> returns: an array of strings with zero,
  one or two dimensions.
\<close>

datatype str_array = Arr0 string | Arr1 "string list" | Arr2 "string list list"

text \<open>
  \<open>np.genfromtxt\<close> with \<open>dtype='str'\<close> and the default delimiter and comment character:
  every line is cut at the first \<open>#\<close> and split at whitespace, lines without fields are
  skipped, the first remaining line fixes the number of columns and a line with another
  number of fields is a \<open>ValueError\<close>. The table is squeezed before it is returned, so it
  has two dimensions only with at least two rows and at least two columns. The argument
  is the outcome of opening the file.
\<close>

definition table_rows :: "string \<Rightarrow> string list list" where
  "table_rows text =
     filter (\<lambda>r. r \<noteq> [])
       (map (\<lambda>l. split_ws [] (takeWhile (\<lambda>c. c \<noteq> CHR ''#'') l)) (split_lines text))"

definition genfromtxt :: "error + string \<Rightarrow> error + str_array" where
  "genfromtxt file =
     (case file of
        Inl e \<Rightarrow> Inl e
      | Inr text \<Rightarrow>
          (case table_rows text of
             [] \<Rightarrow> Inr (Arr1 [])
           | r # rs \<Rightarrow>
               if list_ex (\<lambda>x. length x \<noteq> length r) rs then Inl ValueError
               else if rs = [] then (if length r = 1 then Inr (Arr0 (hd r)) else Inr (Arr1 r))
               else if length r = 1 then Inr (Arr1 (map hd (r # rs)))
               else Inr (Arr2 (r # rs))))"

text \<open>\<open>info[1:, k]\<close>: two indices need a two-dimensional array.\<close>

definition column_from_row1 :: "str_array \<Rightarrow> nat \<Rightarrow> error + string list" where
  "column_from_row1 info k =
     (case info of
        Arr2 (r # rs) \<Rightarrow>
          if k < length r then Inr (map (\<lambda>x. x ! k) rs) else Inl IndexError
      | _ \<Rightarrow> Inl IndexError)"

text \<open>\<open>.astype('int')\<close> on an array of strings.\<close>

definition astype_int :: "string list \<Rightarrow> error + int list" where
  "astype_int xs =
     (if list_ex (\<lambda>x. py_int x = None) xs then Inl ValueError else Inr (map (\<lambda>x. the (py_int x)) xs))"

definition read_cluster_group_tsv :: "error + string \<Rightarrow> error + (int list \<times> string list)" where
  "read_cluster_group_tsv file =
     (case genfromtxt file of
        Inl e \<Rightarrow> Inl e
      | Inr info \<Rightarrow>
          (case column_from_row1 info 0 of
             Inl e \<Rightarrow> Inl e
           | Inr c0 \<Rightarrow>
               (case astype_int c0 of
                  Inl e \<Rightarrow> Inl e
                | Inr cluster_ids \<Rightarrow>
                    (case column_from_row1 info 1 of
                       Inl e \<Rightarrow> Inl e
                     | Inr cluster_quality \<Rightarrow> Inr (cluster_ids, cluster_quality)))))"

section \<open>Probe metadata\<close>

text \<open>
  The document that \<open>json.dump\<close> writes and \<open>json.load\<close> reads back. The text of the
  file is not modelled: a store of JSON files maps a path to the outcome of opening and
  decoding it, and writing a document makes it that outcome. Floating-point numbers are
  taken as the reals they denote.
\<close>

datatype json =
    JInt int
  | JFloat real
  | JString string
  | JList "json list"
  | JObject "(string \<times> json) list"


text \<open>
  The one-dimensional numeric arrays of the probe record, with an integer or a floating
  dtype, are what the writer receives. \<open>np.array\<close> accepts every decoded value:
  \<open>OtherArray\<close> stands for each array it builds that is not of this kind, and keeps the
  value it was built from.
\<close>

datatype num_array = IntArray "int list" | FloatArray "real list"

datatype py_array = Numeric num_array | OtherArray json

fun tolist :: "num_array \<Rightarrow> json" where
  "tolist (IntArray xs) = JList (map JInt xs)"
| "tolist (FloatArray xs) = JList (map JFloat xs)"

fun is_JInt :: "json \<Rightarrow> bool" where
  "is_JInt (JInt i) = True"
| "is_JInt j = False"

fun is_JNum :: "json \<Rightarrow> bool" where
  "is_JNum (JInt i) = True"
| "is_JNum (JFloat x) = True"
| "is_JNum j = False"

fun int_of_json :: "json \<Rightarrow> int" where
  "int_of_json (JInt i) = i"
| "int_of_json j = 0"

fun real_of_json :: "json \<Rightarrow> real" where
  "real_of_json (JInt i) = of_int i"
| "real_of_json (JFloat x) = x"
| "real_of_json j = 0"

text \<open>
  \<open>np.array\<close> on a decoded value: an empty list gives an empty floating array, a list of
  integers an integer array, a list of integers and floats a floating array.
\<close>

fun np_array :: "json \<Rightarrow> py_array" where
  "np_array (JList js) =
     (if js = [] then Numeric (FloatArray [])
      else if list_all is_JInt js then Numeric (IntArray (map int_of_json js))
      else if list_all is_JNum js then Numeric (FloatArray (map real_of_json js))
      else OtherArray (JList js))"
| "np_array j = OtherArray j"




section \<open>Arrays of the sorted-spike data\<close>

text \<open>
  An array as \<open>np.load\<close> returns it: its shape and its elements in row-major order.
  Floating-point elements are taken as reals, so rounding is outside the model.
\<close>

record 'a ndarray =
  shape :: "nat list"
  flat :: "'a list"

text \<open>\<open>np.squeeze\<close> removes every axis of length one and keeps the elements.\<close>

definition squeeze :: "'a ndarray \<Rightarrow> 'a ndarray" where
  "squeeze a = a\<lparr>shape := filter (\<lambda>d. d \<noteq> 1) (shape a)\<rparr>"

text \<open>
  \<open>spike_times / sample_rate\<close>, element by element. For a rate of zero numpy yields
  infinities or NaN where the division of the reals yields zero; nothing below depends
  on the quotients.
\<close>

definition divide_by :: "real ndarray \<Rightarrow> real \<Rightarrow> real ndarray" where
  "divide_by a r = a\<lparr>flat := map (\<lambda>x. x / r) (flat a)\<rparr>"

text \<open>
  \<open>np.unique\<close> sorts the flattened elements and drops every element equal to its
  predecessor; the result is one-dimensional.
\<close>

definition np_unique :: "int ndarray \<Rightarrow> int list" where
  "np_unique a = remdups_adj (sort (flat a))"

text \<open>
  The template tensor, indexed by (template id, time sample, channel), and the
  two-dimensional unwhitening matrix. Both carry their shape, which an array keeps
  also when one of its axes is empty.
\<close>

record tensor3 =
  n_templates :: nat
  n_time :: nat
  n_chan :: nat
  tdata :: "real list list list"

record matrix =
  n_rows :: nat
  n_cols :: nat
  mdata :: "real list list"

definition wf_tensor3 :: "tensor3 \<Rightarrow> bool" where
  "wf_tensor3 T \<longleftrightarrow>
     length (tdata T) = n_templates T \<and>
     list_all (\<lambda>s. length s = n_time T \<and> list_all (\<lambda>r. length r = n_chan T) s) (tdata T)"

definition wf_matrix :: "matrix \<Rightarrow> bool" where
  "wf_matrix M \<longleftrightarrow>
     length (mdata M) = n_rows M \<and> list_all (\<lambda>r. length r = n_cols M) (mdata M)"

text \<open>
  The first index of the slice \<open>p:\<close> on an axis of length \<open>n\<close>: a negative \<open>p\<close> counts from
  the end, and the result is clipped to the axis.
\<close>

definition slice_start :: "int \<Rightarrow> nat \<Rightarrow> nat" where
  "slice_start p n = (if p < 0 then nat (int n + p) else min (nat p) n)"

text \<open>\<open>templates[:, template_zero_padding:, :]\<close>\<close>

definition strip_padding :: "int \<Rightarrow> tensor3 \<Rightarrow> tensor3" where
  "strip_padding template_zero_padding templates =
     (let k = slice_start template_zero_padding (n_time templates)
      in templates\<lparr>n_time := n_time templates - k, tdata := map (drop k) (tdata templates)\<rparr>)"

text \<open>\<open>np.zeros(templates.shape)\<close>\<close>

definition zeros :: "nat \<Rightarrow> nat \<Rightarrow> nat \<Rightarrow> tensor3" where
  "zeros n t c =
     \<lparr>n_templates = n, n_time = t, n_chan = c, tdata = replicate n (replicate t (replicate c 0))\<rparr>"

text \<open>\<open>templates[temp_idx, :, :]\<close>, for an index within the first axis.\<close>

definition template_slice :: "tensor3 \<Rightarrow> nat \<Rightarrow> matrix" where
  "template_slice T i = \<lparr>n_rows = n_time T, n_cols = n_chan T, mdata = tdata T ! i\<rparr>"

text \<open>
  \<open>np.dot\<close> of two two-dimensional arrays: the inner dimensions must agree, else it
  raises \<open>ValueError\<close>; entry (t, j) of the product is the sum of the products of row t
  of the first array with column j of the second.
\<close>

definition dot_rows :: "real list list \<Rightarrow> matrix \<Rightarrow> real list list" where
  "dot_rows rows b =
     map (\<lambda>row. map (\<lambda>j. sum_list (map2 (*) row (map (\<lambda>r. r ! j) (mdata b)))) [0..<n_cols b])
         rows"

definition np_dot :: "matrix \<Rightarrow> matrix \<Rightarrow> error + matrix" where
  "np_dot a b =
     (if n_cols a \<noteq> n_rows b then Inl ValueError
      else Inr \<lparr>n_rows = n_rows a, n_cols = n_cols b, mdata = dot_rows (mdata a) b\<rparr>)"

text \<open>
  The assignment \<open>unwhitened_temps[temp_idx, :, :] = m\<close>: the value is broadcast to the
  shape of the slice (an axis of length one is repeated), and a value that cannot be
  broadcast raises \<open>ValueError\<close>.
\<close>

definition broadcast_to :: "nat \<Rightarrow> nat \<Rightarrow> matrix \<Rightarrow> error + real list list" where
  "broadcast_to t c m =
     (if (n_rows m = t \<or> n_rows m = 1) \<and> (n_cols m = c \<or> n_cols m = 1) then
        (let rows = map (\<lambda>r. if n_cols m = c then r else replicate c (hd r)) (mdata m)
         in Inr (if n_rows m = t then rows else replicate t (hd rows)))
      else Inl ValueError)"

definition assign_slice :: "tensor3 \<Rightarrow> nat \<Rightarrow> matrix \<Rightarrow> error + tensor3" where
  "assign_slice U i m =
     (case broadcast_to (n_time U) (n_chan U) m of
        Inl e \<Rightarrow> Inl e
      | Inr rows \<Rightarrow> Inr (U\<lparr>tdata := (tdata U)[i := rows]\<rparr>))"

text \<open>
  The loop \<open>for temp_idx in range(templates.shape[0])\<close>, over the indices still to visit,
  with the tensor \<open>unwhitened_temps\<close> as its state.
\<close>

fun unwhiten_loop :: "nat list \<Rightarrow> tensor3 \<Rightarrow> matrix \<Rightarrow> tensor3 \<Rightarrow> error + tensor3" where
  "unwhiten_loop [] templates unwhitening_mat unwhitened_temps = Inr unwhitened_temps"
| "unwhiten_loop (temp_idx # rest) templates unwhitening_mat unwhitened_temps =
     (case np_dot (template_slice templates temp_idx) unwhitening_mat of
        Inl e \<Rightarrow> Inl e
      | Inr m \<Rightarrow>
          (case assign_slice unwhitened_temps temp_idx m of
             Inl e \<Rightarrow> Inl e
           | Inr U \<Rightarrow> unwhiten_loop rest templates unwhitening_mat U))"

section \<open>load_kilosort_data\<close>

text \<open>
  The source directory: for each conventional file name, the outcome of
  \<open>load(folder, name)\<close>, and for the quality table the outcome of opening it. The
  template file is read as the three-dimensional array that the indexing
  \<open>templates[:, p:, :]\<close> and the per-template product work on, the unwhitening file as a
  two-dimensional one; the other arrays may have any shape.
\<close>

record folder =
  spike_times_master_clock_npy :: "error + real ndarray"
  spike_times_npy :: "error + real ndarray"
  spike_clusters_npy :: "error + int ndarray"
  amplitudes_npy :: "error + real ndarray"
  templates_npy :: "error + tensor3"
  whitening_mat_inv_npy :: "error + matrix"
  channel_map_npy :: "error + int ndarray"
  pc_features_npy :: "error + real ndarray"
  pc_feature_ind_npy :: "error + int ndarray"
  cluster_group_tsv :: "error + string"

text \<open>The returned tuple; the last component is present when \<open>include_pcs\<close> is set.\<close>

record kilosort_data =
  spike_times :: "real ndarray"
  spike_clusters :: "int ndarray"
  amplitudes :: "real ndarray"
  unwhitened_temps :: tensor3
  channel_map :: "int ndarray"
  cluster_ids :: "int list"
  cluster_quality :: "string list"
  pcs :: "(real ndarray \<times> int ndarray) option"

text \<open>Sequencing of steps that may raise: the first exception ends the function.\<close>

definition and_then :: "error + 'a \<Rightarrow> ('a \<Rightarrow> error + 'b) \<Rightarrow> error + 'b" where
  "and_then r f = (case r of Inl e \<Rightarrow> Inl e | Inr x \<Rightarrow> f x)"

text \<open>
  The \<open>try\<close> statement around the quality table: an exception of class \<open>OSError\<close> is
  replaced by the record synthesized from the cluster assignments.
\<close>

definition resolve_cluster_quality :: "error + string \<Rightarrow> int ndarray \<Rightarrow> error + (int list \<times> string list)" where
  "resolve_cluster_quality file clusters =
     (case read_cluster_group_tsv file of
        Inr r \<Rightarrow> Inr r
      | Inl e \<Rightarrow>
          if is_OSError e then
            (let ids = np_unique clusters
             in Inr (ids, replicate (length ids) ''unsorted''))
          else Inl e)"

definition load_kilosort_data ::
    "folder \<Rightarrow> real \<Rightarrow> bool \<Rightarrow> bool \<Rightarrow> bool \<Rightarrow> int \<Rightarrow> error + kilosort_data" where
  "load_kilosort_data fld sample_rate convert_to_seconds use_master_clock include_pcs
       template_zero_padding =
     and_then (if use_master_clock then spike_times_master_clock_npy fld else spike_times_npy fld)
       (\<lambda>spike_times0.
     and_then (spike_clusters_npy fld) (\<lambda>spike_clusters0.
     and_then (amplitudes_npy fld) (\<lambda>amplitudes0.
     and_then (templates_npy fld) (\<lambda>templates0.
     and_then (whitening_mat_inv_npy fld) (\<lambda>unwhitening_mat.
     and_then (channel_map_npy fld) (\<lambda>channel_map0.
     and_then (if include_pcs
               then and_then (pc_features_npy fld) (\<lambda>pc_features.
                    and_then (pc_feature_ind_npy fld) (\<lambda>pc_feature_ind.
                      Inr (Some (pc_features, pc_feature_ind))))
               else Inr None) (\<lambda>pcs0.
       let templates1 = strip_padding template_zero_padding templates0;
           spike_clusters1 = squeeze spike_clusters0;
           spike_times1 = squeeze spike_times0;
           spike_times2 = (if convert_to_seconds then divide_by spike_times1 sample_rate
                           else spike_times1)
       in
     and_then (unwhiten_loop [0..<n_templates templates1] templates1 unwhitening_mat
                 (zeros (n_templates templates1) (n_time templates1) (n_chan templates1)))
       (\<lambda>unwhitened.
     and_then (resolve_cluster_quality (cluster_group_tsv fld) spike_clusters1)
       (\<lambda>(ids, quality).
         Inr \<lparr>spike_times = spike_times2, spike_clusters = spike_clusters1,
              amplitudes = amplitudes0, unwhitened_temps = unwhitened,
              channel_map = channel_map0, cluster_ids = ids, cluster_quality = quality,
              pcs = pcs0\<rparr>)))))))))"

section \<open>Example inputs\<close>

text \<open>
  A directory with three spikes stored as columns, one template of three time samples on
  two channels, a two-by-two unwhitening matrix, and neither principal-component
  features nor a quality table.
\<close>

definition example_templates :: tensor3 where
  "example_templates =
     \<lparr>n_templates = 1, n_time = 3, n_chan = 2, tdata = [[[0, 0], [1, 2], [3, 4]]]\<rparr>"

definition example_unwhitening_mat :: matrix where
  "example_unwhitening_mat = \<lparr>n_rows = 2, n_cols = 2, mdata = [[1, 1], [0, 2]]\<rparr>"

definition example_folder :: folder where
  "example_folder =
     \<lparr>spike_times_master_clock_npy = Inl FileNotFoundError,
      spike_times_npy = Inr \<lparr>shape = [3, 1], flat = [30000, 60000, 90000]\<rparr>,
      spike_clusters_npy = Inr \<lparr>shape = [3, 1], flat = [2, 0, 2]\<rparr>,
      amplitudes_npy = Inr \<lparr>shape = [3], flat = [10, 11, 12]\<rparr>,
      templates_npy = Inr example_templates,
      whitening_mat_inv_npy = Inr example_unwhitening_mat,
      channel_map_npy = Inr \<lparr>shape = [2, 1], flat = [0, 1]\<rparr>,
      pc_features_npy = Inl FileNotFoundError,
      pc_feature_ind_npy = Inl FileNotFoundError,
      cluster_group_tsv = Inl FileNotFoundError\<rparr>"

text \<open>What the loader returns for it, with conversion to seconds and a padding of one sample.\<close>

definition example_result :: kilosort_data where
  "example_result =
     \<lparr>spike_times = \<lparr>shape = [3], flat = [1, 2, 3]\<rparr>,
      spike_clusters = \<lparr>shape = [3], flat = [2, 0, 2]\<rparr>,
      amplitudes = \<lparr>shape = [3], flat = [10, 11, 12]\<rparr>,
      unwhitened_temps =
        \<lparr>n_templates = 1, n_time = 2, n_chan = 2, tdata = [[[1, 5], [3, 11]]]\<rparr>,
      channel_map = \<lparr>shape = [2, 1], flat = [0, 1]\<rparr>,
      cluster_ids = [0, 2],
      cluster_quality = [''unsorted'', ''unsorted''],
      pcs = None\<rparr>"

text \<open>The same directory with a quality table that exists but may not be read.\<close>

definition unreadable_table_folder :: folder where
  "unreadable_table_folder = example_folder\<lparr>cluster_group_tsv := Inl PermissionError\<rparr>"

text \<open>The same directory with a three-by-three unwhitening matrix.\<close>

definition identity3 :: matrix where
  "identity3 = \<lparr>n_rows = 3, n_cols = 3, mdata = [[1, 0, 0], [0, 1, 0], [0, 0, 1]]\<rparr>"

definition mismatch_folder :: folder where
  "mismatch_folder = example_folder\<lparr>whitening_mat_inv_npy := Inr identity3\<rparr>"

text \<open>
  A directory whose template array has shape (0, 3, 2), with a three-by-three
  unwhitening matrix.
\<close>

definition no_templates_folder :: folder where
  "no_templates_folder =
     mismatch_folder\<lparr>templates_npy :=
       Inr \<lparr>n_templates = 0, n_time = 3, n_chan = 2, tdata = []\<rparr>\<rparr>"

text \<open>The example directory with an unwhitening matrix of a single column.\<close>

definition column_matrix_folder :: folder where
  "column_matrix_folder =
     example_folder\<lparr>whitening_mat_inv_npy :=
       Inr \<lparr>n_rows = 2, n_cols = 1, mdata = [[1], [2]]\<rparr>\<rparr>"

text \<open>A directory with a single spike, stored with shape (1, 1).\<close>

definition single_spike_folder :: folder where
  "single_spike_folder =
     example_folder\<lparr>spike_times_npy := Inr \<lparr>shape = [1, 1], flat = [30000]\<rparr>,
                    spike_clusters_npy := Inr \<lparr>shape = [1, 1], flat = [2]\<rparr>,
                    amplitudes_npy := Inr \<lparr>shape = [1], flat = [10]\<rparr>\<rparr>"



section \<open>Basic facts about the loader\<close>

lemma and_then_Inr_iff: "and_then r f = Inr y \<longleftrightarrow> (\<exists>x. r = Inr x \<and> f x = Inr y)"
  by (cases r) (simp_all add: and_then_def)

lemma and_then_cases: "and_then r f = (case r of Inl e \<Rightarrow> Inl e | Inr x \<Rightarrow> f x)"
  by (simp add: and_then_def)

text \<open>What a successful call says about the files and about the returned components.\<close>

lemma load_kilosort_data_InrD:
  assumes "load_kilosort_data fld sr conv mc ip p = Inr b"
  shows "\<exists>st sc raw W.
           (if mc then spike_times_master_clock_npy fld else spike_times_npy fld) = Inr st \<and>
           spike_clusters_npy fld = Inr sc \<and>
           amplitudes_npy fld = Inr (amplitudes b) \<and>
           templates_npy fld = Inr raw \<and>
           whitening_mat_inv_npy fld = Inr W \<and>
           channel_map_npy fld = Inr (channel_map b) \<and>
           spike_times b = (if conv then divide_by (squeeze st) sr else squeeze st) \<and>
           spike_clusters b = squeeze sc \<and>
           unwhiten_loop [0..<n_templates (strip_padding p raw)] (strip_padding p raw) W
             (zeros (n_templates (strip_padding p raw)) (n_time (strip_padding p raw))
                (n_chan (strip_padding p raw))) = Inr (unwhitened_temps b) \<and>
           resolve_cluster_quality (cluster_group_tsv fld) (squeeze sc)
             = Inr (cluster_ids b, cluster_quality b)"
  using assms
  unfolding load_kilosort_data_def Let_def and_then_Inr_iff
  by (auto split: prod.splits)

lemma example_load:
  "load_kilosort_data example_folder 30000 True False False 1 = Inr example_result"
  by code_simp

lemma read_cluster_group_tsv_Inl: "read_cluster_group_tsv (Inl e) = Inl e"
  by (simp add: read_cluster_group_tsv_def genfromtxt_def)

section \<open>Passthrough of amplitudes and channel map\<close>

text \<open>
  Claim C10. Whenever \<open>load_kilosort_data\<close> returns, the amplitudes and the channel map
  of the result are exactly the arrays that were loaded from \<open>amplitudes.npy\<close> and
  \<open>channel_map.npy\<close>: same shape, same elements.
\<close>

theorem C10_passthrough:
  assumes "load_kilosort_data fld sr conv mc ip p = Inr b"
  shows "amplitudes_npy fld = Inr (amplitudes b) \<and> channel_map_npy fld = Inr (channel_map b)"
  using load_kilosort_data_InrD [OF assms] by blast

theorem C10_passthrough_witness:
  "amplitudes_npy example_folder = Inr \<lparr>shape = [3], flat = [10, 11, 12]\<rparr> \<and>
   channel_map_npy example_folder = Inr \<lparr>shape = [2, 1], flat = [0, 1]\<rparr>"
  using C10_passthrough [OF example_load] by (simp add: example_result_def)

section \<open>Normalization of spike times and cluster assignments\<close>

lemma squeeze_flat: "flat (squeeze a) = flat a"
  by (simp add: squeeze_def)

text \<open>
  An array with one axis of a length other than one, among any number of axes of
  length one, becomes one-dimensional of that length.
\<close>

lemma squeeze_one_long_axis:
  "n \<noteq> 1 \<Longrightarrow> shape a = replicate i 1 @ n # replicate j 1 \<Longrightarrow> shape (squeeze a) = [n]"
  by (simp add: squeeze_def)

text \<open>An array of a single element loses every axis.\<close>

lemma squeeze_single_element:
  "shape a = replicate i 1 \<Longrightarrow> shape (squeeze a) = []"
  by (simp add: squeeze_def)

text \<open>
  Claim C8. The normalization is meant to return one-dimensional arrays of length N.
  For a directory whose spike times and cluster assignments hold one spike, stored with
  shape (1, 1), the loader returns both with the empty shape: arrays of dimension zero,
  not one-dimensional arrays of length one. The element values are kept.
\<close>

theorem C8_single_spike_zero_dimensional:
  "load_kilosort_data single_spike_folder 30000 False False False 1 =
     Inr \<lparr>spike_times = \<lparr>shape = [], flat = [30000]\<rparr>,
          spike_clusters = \<lparr>shape = [], flat = [2]\<rparr>,
          amplitudes = \<lparr>shape = [1], flat = [10]\<rparr>,
          unwhitened_temps =
            \<lparr>n_templates = 1, n_time = 2, n_chan = 2, tdata = [[[1, 5], [3, 11]]]\<rparr>,
          channel_map = \<lparr>shape = [2, 1], flat = [0, 1]\<rparr>,
          cluster_ids = [2],
          cluster_quality = [''unsorted''],
          pcs = None\<rparr>"
  by code_simp

section \<open>The fallback quality record\<close>

lemma distinct_remdups_adj_sorted:
  "sorted (xs :: int list) \<Longrightarrow> distinct (remdups_adj xs)"
  by (induction xs rule: remdups_adj.induct) auto

lemma np_unique_strict_sorted: "sorted_wrt (<) (np_unique a)"
  unfolding np_unique_def strict_sorted_iff
  by (simp add: distinct_remdups_adj_sorted)

lemma np_unique_set: "set (np_unique a) = set (flat a)"
  by (simp add: np_unique_def)

text \<open>
  Claim C4. When the quality table does not exist and the loader returns, the returned
  cluster ids are strictly ascending (so ascending and without repetition), they are
  exactly the values that occur in the returned, normalized cluster-assignment array,
  and the returned labels are one \<open>unsorted\<close> per id.
\<close>

theorem C4_fallback_record:
  assumes "cluster_group_tsv fld = Inl FileNotFoundError"
    and "load_kilosort_data fld sr conv mc ip p = Inr b"
  shows "sorted_wrt (<) (cluster_ids b) \<and>
         set (cluster_ids b) = set (flat (spike_clusters b)) \<and>
         cluster_quality b = replicate (length (cluster_ids b)) ''unsorted''"
proof -
  from load_kilosort_data_InrD [OF assms(2)] obtain sc where
    sc: "spike_clusters b = squeeze sc"
    and r: "resolve_cluster_quality (cluster_group_tsv fld) (squeeze sc)
              = Inr (cluster_ids b, cluster_quality b)"
    by blast
  from r have ids: "cluster_ids b = np_unique (squeeze sc)"
    and q: "cluster_quality b = replicate (length (np_unique (squeeze sc))) ''unsorted''"
    by (auto simp add: assms(1) resolve_cluster_quality_def read_cluster_group_tsv_Inl Let_def)
  show ?thesis
    unfolding ids q sc by (simp add: np_unique_strict_sorted np_unique_set)
qed

theorem C4_fallback_record_witness:
  "cluster_group_tsv example_folder = Inl FileNotFoundError \<and>
   sorted_wrt (<) [0, 2 :: int] \<and>
   set [0, 2 :: int] = set [2, 0, 2] \<and>
   [''unsorted'', ''unsorted''] = replicate (length [0, 2 :: int]) ''unsorted''"
proof -
  have h: "cluster_group_tsv example_folder = Inl FileNotFoundError"
    by (simp add: example_folder_def)
  show ?thesis
    using h C4_fallback_record [OF h example_load] by (simp add: example_result_def)
qed

section \<open>Which read failures are replaced by the fallback\<close>

text \<open>
  Claim C1, as stated, fails. The quality table of this directory exists but may not be
  read, so that reading it raises \<open>PermissionError\<close>; the loader does not raise: it
  returns the synthesized record.
\<close>

theorem C1_permission_error_counterexample:
  "read_cluster_group_tsv (cluster_group_tsv unreadable_table_folder) = Inl PermissionError \<and>
   load_kilosort_data unreadable_table_folder 30000 True False False 1 = Inr example_result"
  by code_simp

text \<open>
  Claim C1, amended. When reading the quality table raises an error of class \<open>OSError\<close>
  (a missing file, but also a permission error or any other failure of the operating
  system), the loader behaves exactly as it does when the file is missing, so it takes
  the fallback. When the read raises any other error (a \<open>ValueError\<close> or an
  \<open>IndexError\<close> of the parser), that error is what the loader raises whenever it would
  have returned with the file missing, that is whenever no earlier step fails.
\<close>

theorem C1_fallback_on_any_OSError:
  assumes "read_cluster_group_tsv (cluster_group_tsv fld) = Inl e"
  shows "load_kilosort_data fld sr conv mc ip p =
           (if is_OSError e
            then load_kilosort_data (fld\<lparr>cluster_group_tsv := Inl FileNotFoundError\<rparr>)
                   sr conv mc ip p
            else (case load_kilosort_data (fld\<lparr>cluster_group_tsv := Inl FileNotFoundError\<rparr>)
                         sr conv mc ip p of
                    Inl e' \<Rightarrow> Inl e'
                  | Inr b \<Rightarrow> Inl e))"
  using assms
  by (simp add: load_kilosort_data_def and_then_cases Let_def resolve_cluster_quality_def
        read_cluster_group_tsv_Inl split: sum.splits)

theorem C1_fallback_on_any_OSError_witness:
  "read_cluster_group_tsv (cluster_group_tsv unreadable_table_folder) = Inl PermissionError \<and>
   load_kilosort_data unreadable_table_folder 30000 True False False 1 =
     load_kilosort_data (unreadable_table_folder\<lparr>cluster_group_tsv := Inl FileNotFoundError\<rparr>)
       30000 True False False 1"
proof -
  have h: "read_cluster_group_tsv (cluster_group_tsv unreadable_table_folder) = Inl PermissionError"
    by (simp add: unreadable_table_folder_def read_cluster_group_tsv_Inl)
  show ?thesis
    using h C1_fallback_on_any_OSError [OF h, of 30000 True False False 1] by simp
qed

section \<open>Stripping the template padding\<close>

lemma slice_start_le: "slice_start p n \<le> n"
  by (cases "p < 0") (simp_all add: slice_start_def nat_le_iff)

lemma slice_start_nonneg: "0 \<le> p \<Longrightarrow> slice_start p n = min (nat p) n"
  by (simp add: slice_start_def)

lemma strip_padding_dims:
  "n_templates (strip_padding p T) = n_templates T"
  "n_chan (strip_padding p T) = n_chan T"
  "n_time (strip_padding p T) = n_time T - slice_start p (n_time T)"
  "tdata (strip_padding p T) = map (drop (slice_start p (n_time T))) (tdata T)"
  by (simp_all add: strip_padding_def Let_def)

lemma wf_tensor3_iff:
  "wf_tensor3 T \<longleftrightarrow>
     length (tdata T) = n_templates T \<and>
     (\<forall>i < n_templates T. length (tdata T ! i) = n_time T \<and>
        (\<forall>t < n_time T. length (tdata T ! i ! t) = n_chan T))"
  unfolding wf_tensor3_def list_all_length by auto

lemma wf_matrix_iff:
  "wf_matrix M \<longleftrightarrow>
     length (mdata M) = n_rows M \<and> (\<forall>t < n_rows M. length (mdata M ! t) = n_cols M)"
  unfolding wf_matrix_def list_all_length by auto

lemma wf_strip_padding: "wf_tensor3 T \<Longrightarrow> wf_tensor3 (strip_padding p T)"
  unfolding wf_tensor3_iff strip_padding_dims
  by (auto simp: slice_start_le)

lemma wf_example_templates: "wf_tensor3 example_templates"
  by (simp add: wf_tensor3_def example_templates_def)

text \<open>
  Claim C6. For a raw template tensor of time-length T and a padding width p (a width
  is not negative), the stripped tensor has time-length T - p (no sample is left when
  p exceeds T), its first and last axes are unchanged, it is a well-formed tensor, and
  its value at (i, t, c) for t below T - p is the raw value at (i, p + t, c).
\<close>

theorem C6_strip_padding_exact:
  assumes "wf_tensor3 raw" and "0 \<le> p"
  shows "n_time (strip_padding p raw) = n_time raw - nat p \<and>
         n_templates (strip_padding p raw) = n_templates raw \<and>
         n_chan (strip_padding p raw) = n_chan raw \<and>
         wf_tensor3 (strip_padding p raw) \<and>
         (\<forall>i < n_templates raw. \<forall>t < n_time raw - nat p. \<forall>c < n_chan raw.
            tdata (strip_padding p raw) ! i ! t ! c = tdata raw ! i ! (nat p + t) ! c)"
proof -
  have k: "slice_start p (n_time raw) = min (nat p) (n_time raw)"
    using assms(2) by (rule slice_start_nonneg)
  have "tdata (strip_padding p raw) ! i ! t = tdata raw ! i ! (nat p + t)"
    if "i < n_templates raw" "t < n_time raw - nat p" for i t
  proof -
    from that assms(1) have len: "length (tdata raw) = n_templates raw"
      "length (tdata raw ! i) = n_time raw"
      by (simp_all add: wf_tensor3_iff)
    from that(2) have "nat p \<le> n_time raw" by simp
    then show ?thesis
      using that(1) len by (simp add: strip_padding_dims k min_absorb1)
  qed
  then show ?thesis
    using wf_strip_padding [OF assms(1)] by (simp add: strip_padding_dims k)
qed

theorem C6_strip_padding_exact_witness:
  "wf_tensor3 example_templates \<and> (0::int) \<le> 1 \<and>
   n_time (strip_padding 1 example_templates) = 2 \<and>
   tdata (strip_padding 1 example_templates) ! 0 ! 1 ! 1 = 4 \<and>
   tdata example_templates ! 0 ! 2 ! 1 = 4"
proof -
  have p: "(0::int) \<le> 1" by simp
  note th = C6_strip_padding_exact [OF wf_example_templates p]
  have t: "n_time (strip_padding 1 example_templates) = 2"
    using th by (simp add: example_templates_def)
  have bounds: "0 < n_templates example_templates"
    "1 < n_time example_templates - nat 1" "1 < n_chan example_templates"
    by (simp_all add: example_templates_def)
  from th have "\<forall>i < n_templates example_templates.
      \<forall>t < n_time example_templates - nat 1. \<forall>c < n_chan example_templates.
        tdata (strip_padding 1 example_templates) ! i ! t ! c
          = tdata example_templates ! i ! (nat 1 + t) ! c"
    by blast
  with bounds have "tdata (strip_padding 1 example_templates) ! 0 ! 1 ! 1
          = tdata example_templates ! 0 ! (nat 1 + 1) ! 1"
    by blast
  also have "\<dots> = tdata example_templates ! 0 ! 2 ! 1"
    by (simp add: numeral_2_eq_2)
  also have "\<dots> = 4"
    by (simp add: example_templates_def)
  finally have e: "tdata (strip_padding 1 example_templates) ! 0 ! 1 ! 1 = 4" .
  have e': "tdata example_templates ! 0 ! 2 ! 1 = 4"
    by (simp add: example_templates_def)
  show ?thesis
    using wf_example_templates p t e e' by blast
qed

section \<open>Unwhitening\<close>

lemma np_dot_template_slice:
  "n_chan S = n_rows W \<Longrightarrow>
   np_dot (template_slice S i) W =
     Inr \<lparr>n_rows = n_time S, n_cols = n_cols W, mdata = dot_rows (tdata S ! i) W\<rparr>"
  by (simp add: np_dot_def template_slice_def)

lemma np_dot_mismatch:
  "n_chan S \<noteq> n_rows W \<Longrightarrow> np_dot (template_slice S i) W = Inl ValueError"
  by (simp add: np_dot_def template_slice_def)

lemma assign_slice_same_shape:
  "n_rows m = n_time U \<Longrightarrow> n_cols m = n_chan U \<Longrightarrow>
   assign_slice U i m = Inr (U\<lparr>tdata := (tdata U)[i := mdata m]\<rparr>)"
  by (simp add: assign_slice_def broadcast_to_def Let_def)

text \<open>
  The loop invariant: with agreeing shapes no step raises, and the state after the
  indices \<open>idxs\<close> is the initial tensor with the product stored at each of them.
\<close>

lemma unwhiten_loop_fold:
  assumes "n_chan S = n_rows W" "n_cols W = n_chan U" "n_time U = n_time S"
  shows "unwhiten_loop idxs S W U =
           Inr (U\<lparr>tdata := foldl (\<lambda>d i. d[i := dot_rows (tdata S ! i) W]) (tdata U) idxs\<rparr>)"
  using assms
proof (induction idxs arbitrary: U)
  case Nil
  then show ?case by simp
next
  case (Cons i idxs)
  let ?U = "U\<lparr>tdata := (tdata U)[i := dot_rows (tdata S ! i) W]\<rparr>"
  have step: "assign_slice U i
                \<lparr>n_rows = n_time S, n_cols = n_cols W, mdata = dot_rows (tdata S ! i) W\<rparr>
                = Inr ?U"
    using Cons.prems by (simp add: assign_slice_same_shape)
  have "unwhiten_loop idxs S W ?U =
          Inr (?U\<lparr>tdata := foldl (\<lambda>d i. d[i := dot_rows (tdata S ! i) W]) (tdata ?U) idxs\<rparr>)"
    using Cons.prems by (intro Cons.IH) simp_all
  then show ?case
    using Cons.prems(1) by (simp add: np_dot_template_slice step)
qed

lemma foldl_update_upt:
  "k \<le> length d \<Longrightarrow>
   foldl (\<lambda>d i. d[i := f i]) d [0..<k] = map f [0..<k] @ drop k d"
proof (induction k)
  case 0
  then show ?case by simp
next
  case (Suc k)
  then have "k < length d" by simp
  then have "(map f [0..<k] @ drop k d)[k := f k] = map f [0..<k] @ f k # drop (Suc k) d"
    by (simp add: list_update_append Cons_nth_drop_Suc [symmetric])
  with Suc show ?case by simp
qed

text \<open>With agreeing shapes the loop returns, and every slice holds its product.\<close>

lemma unwhiten_loop_result:
  assumes "n_chan S = n_rows W" "n_cols W = n_chan S"
  shows "unwhiten_loop [0..<n_templates S] S W (zeros (n_templates S) (n_time S) (n_chan S)) =
           Inr \<lparr>n_templates = n_templates S, n_time = n_time S, n_chan = n_chan S,
                tdata = map (\<lambda>i. dot_rows (tdata S ! i) W) [0..<n_templates S]\<rparr>"
proof -
  have "unwhiten_loop [0..<n_templates S] S W (zeros (n_templates S) (n_time S) (n_chan S)) =
          Inr ((zeros (n_templates S) (n_time S) (n_chan S))
                 \<lparr>tdata := foldl (\<lambda>d i. d[i := dot_rows (tdata S ! i) W])
                             (tdata (zeros (n_templates S) (n_time S) (n_chan S)))
                             [0..<n_templates S]\<rparr>)"
    using assms by (intro unwhiten_loop_fold) (simp_all add: zeros_def)
  moreover have "foldl (\<lambda>d i. d[i := dot_rows (tdata S ! i) W])
                   (tdata (zeros (n_templates S) (n_time S) (n_chan S))) [0..<n_templates S]
                 = map (\<lambda>i. dot_rows (tdata S ! i) W) [0..<n_templates S]"
    by (subst foldl_update_upt) (simp_all add: zeros_def)
  ultimately show ?thesis by (simp add: zeros_def)
qed

lemma sum_list_map2_mult:
  fixes xs ys :: "real list"
  assumes "length xs = n" "length ys = n"
  shows "sum_list (map2 (*) xs ys) = (\<Sum>k<n. xs ! k * ys ! k)"
proof -
  have "sum_list (map2 (*) xs ys) = (\<Sum>k = 0..<n. map2 (*) xs ys ! k)"
    using assms by (simp add: sum_list_sum_nth)
  also have "\<dots> = (\<Sum>k = 0..<n. xs ! k * ys ! k)"
    using assms by (intro sum.cong) simp_all
  finally show ?thesis by (simp add: atLeast0LessThan)
qed

text \<open>The entries of the product, as the sum that defines a matrix product.\<close>

lemma dot_rows_entry:
  assumes "wf_matrix W" "length rows = T" "\<forall>t < T. length (rows ! t) = n_rows W"
    and "t < T" "c < n_cols W"
  shows "dot_rows rows W ! t ! c = (\<Sum>k < n_rows W. rows ! t ! k * mdata W ! k ! c)"
proof -
  have "dot_rows rows W ! t ! c
          = sum_list (map2 (*) (rows ! t) (map (\<lambda>r. r ! c) (mdata W)))"
    using assms(2,4,5) by (simp add: dot_rows_def)
  also have "\<dots> = (\<Sum>k < n_rows W. (rows ! t) ! k * map (\<lambda>r. r ! c) (mdata W) ! k)"
    using assms(1,3,4) by (intro sum_list_map2_mult) (simp_all add: wf_matrix_iff)
  also have "\<dots> = (\<Sum>k < n_rows W. rows ! t ! k * mdata W ! k ! c)"
    using assms(1) by (intro sum.cong) (simp_all add: wf_matrix_iff)
  finally show ?thesis .
qed

lemma dot_rows_lengths:
  "length (dot_rows rows W) = length rows"
  "t < length rows \<Longrightarrow> length (dot_rows rows W ! t) = n_cols W"
  by (simp_all add: dot_rows_def)

text \<open>
  Claim C2. Let the template file hold a well-formed tensor and the unwhitening file a
  well-formed matrix with as many rows and as many columns as the tensor has channels.
  When the loader returns, its unwhitened tensor has the three dimensions of the
  stripped tensor and is well formed, and its entry (i, t, c) is the sum over the
  channels k of the stripped entry (i, t, k) times the matrix entry (k, c): slice i is
  the stripped slice i multiplied on the right by the matrix.
\<close>

theorem C2_unwhitening:
  assumes "load_kilosort_data fld sr conv mc ip p = Inr b"
    and "templates_npy fld = Inr raw" and "wf_tensor3 raw"
    and "whitening_mat_inv_npy fld = Inr W" and "wf_matrix W"
    and "n_rows W = n_chan raw" and "n_cols W = n_chan raw"
  shows "n_templates (unwhitened_temps b) = n_templates (strip_padding p raw) \<and>
         n_time (unwhitened_temps b) = n_time (strip_padding p raw) \<and>
         n_chan (unwhitened_temps b) = n_chan (strip_padding p raw) \<and>
         wf_tensor3 (unwhitened_temps b) \<and>
         (\<forall>i < n_templates (strip_padding p raw).
          \<forall>t < n_time (strip_padding p raw).
          \<forall>c < n_chan (strip_padding p raw).
            tdata (unwhitened_temps b) ! i ! t ! c =
              (\<Sum>k < n_chan (strip_padding p raw).
                 tdata (strip_padding p raw) ! i ! t ! k * mdata W ! k ! c))"
proof -
  let ?S = "strip_padding p raw"
  have wfS: "wf_tensor3 ?S" using assms(3) by (rule wf_strip_padding)
  have dims: "n_chan ?S = n_rows W" "n_cols W = n_chan ?S"
    using assms(6,7) by (simp_all add: strip_padding_dims)
  from load_kilosort_data_InrD [OF assms(1)] assms(2,4)
  have "unwhiten_loop [0..<n_templates ?S] ?S W
          (zeros (n_templates ?S) (n_time ?S) (n_chan ?S)) = Inr (unwhitened_temps b)"
    by auto
  with unwhiten_loop_result [OF dims]
  have u: "unwhitened_temps b =
             \<lparr>n_templates = n_templates ?S, n_time = n_time ?S, n_chan = n_chan ?S,
              tdata = map (\<lambda>i. dot_rows (tdata ?S ! i) W) [0..<n_templates ?S]\<rparr>"
    by simp
  have len: "length (tdata ?S) = n_templates ?S"
    and len_i: "\<And>i. i < n_templates ?S \<Longrightarrow> length (tdata ?S ! i) = n_time ?S"
    and len_t: "\<And>i t. i < n_templates ?S \<Longrightarrow> t < n_time ?S \<Longrightarrow>
                  length (tdata ?S ! i ! t) = n_chan ?S"
    using wfS by (simp_all add: wf_tensor3_iff)
  have wfU: "wf_tensor3 (unwhitened_temps b)"
    unfolding wf_tensor3_iff u using len_i dims by (simp add: dot_rows_lengths)
  have entry: "tdata (unwhitened_temps b) ! i ! t ! c =
                (\<Sum>k < n_chan ?S. tdata ?S ! i ! t ! k * mdata W ! k ! c)"
    if "i < n_templates ?S" "t < n_time ?S" "c < n_chan ?S" for i t c
  proof -
    have "tdata (unwhitened_temps b) ! i ! t ! c = dot_rows (tdata ?S ! i) W ! t ! c"
      using that(1) by (simp add: u)
    also have "\<dots> = (\<Sum>k < n_rows W. tdata ?S ! i ! t ! k * mdata W ! k ! c)"
      using that dims len_i len_t assms(5)
      by (intro dot_rows_entry [where T = "n_time ?S"]) simp_all
    finally show ?thesis by (simp add: dims)
  qed
  show ?thesis
    using wfU entry by (simp add: u)
qed

theorem C2_unwhitening_witness:
  "load_kilosort_data example_folder 30000 True False False 1 = Inr example_result \<and>
   templates_npy example_folder = Inr example_templates \<and>
   wf_tensor3 example_templates \<and>
   whitening_mat_inv_npy example_folder = Inr example_unwhitening_mat \<and>
   wf_matrix example_unwhitening_mat \<and>
   n_rows example_unwhitening_mat = n_chan example_templates \<and>
   n_cols example_unwhitening_mat = n_chan example_templates \<and>
   n_time (unwhitened_temps example_result) = 2 \<and>
   tdata (unwhitened_temps example_result) ! 0 ! 1 ! 1 = 3 * 1 + 4 * 2"
proof -
  have t: "templates_npy example_folder = Inr example_templates"
    and w: "whitening_mat_inv_npy example_folder = Inr example_unwhitening_mat"
    by (simp_all add: example_folder_def)
  have wfW: "wf_matrix example_unwhitening_mat"
    by (simp add: wf_matrix_def example_unwhitening_mat_def)
  have r: "n_rows example_unwhitening_mat = n_chan example_templates"
    and c: "n_cols example_unwhitening_mat = n_chan example_templates"
    by (simp_all add: example_unwhitening_mat_def example_templates_def)
  note th = C2_unwhitening [OF example_load t wf_example_templates w wfW r c]
  have S: "strip_padding 1 example_templates =
             \<lparr>n_templates = 1, n_time = 2, n_chan = 2, tdata = [[[1, 2], [3, 4]]]\<rparr>"
    by (simp add: strip_padding_def slice_start_def example_templates_def)
  from th have nt: "n_time (unwhitened_temps example_result) = 2"
    by (simp add: S)
  from th have "\<forall>i < 1. \<forall>t < 2. \<forall>c < 2.
      tdata (unwhitened_temps example_result) ! i ! t ! c =
        (\<Sum>k < 2. [[[1, 2], [3, 4 :: real]]] ! i ! t ! k * mdata example_unwhitening_mat ! k ! c)"
    by (simp add: S)
  then have "tdata (unwhitened_temps example_result) ! 0 ! 1 ! 1 =
        (\<Sum>k < 2. [[[1, 2], [3, 4 :: real]]] ! 0 ! 1 ! k * mdata example_unwhitening_mat ! k ! 1)"
    by simp
  also have "\<dots> = 3 * 1 + 4 * 2"
    by (simp add: example_unwhitening_mat_def lessThan_Suc numeral_2_eq_2)
  finally show ?thesis
    using example_load t w wf_example_templates wfW r c nt by simp
qed

section \<open>Shape mismatch\<close>

lemma assign_slice_not_broadcast:
  "n_cols m \<noteq> n_chan U \<Longrightarrow> n_cols m \<noteq> 1 \<Longrightarrow> assign_slice U i m = Inl ValueError"
  by (simp add: assign_slice_def broadcast_to_def)

text \<open>With a disagreeing shape the first step of the loop raises.\<close>

lemma unwhiten_loop_mismatch:
  assumes "n_chan S \<noteq> n_rows W \<or> (n_cols W \<noteq> n_chan U \<and> n_cols W \<noteq> 1)" "0 < n"
  shows "unwhiten_loop [0..<n] S W U = Inl ValueError"
proof -
  from assms(2) have idx: "[0..<n] = 0 # [1..<n]" by (simp add: upt_conv_Cons)
  show ?thesis
  proof (cases "n_chan S = n_rows W")
    case False
    then show ?thesis by (simp add: idx np_dot_mismatch)
  next
    case True
    with assms(1) have "n_cols W \<noteq> n_chan U" "n_cols W \<noteq> 1" by simp_all
    then have "assign_slice U 0
                 \<lparr>n_rows = n_time S, n_cols = n_cols W, mdata = dot_rows (tdata S ! 0) W\<rparr>
               = Inl ValueError"
      by (intro assign_slice_not_broadcast) simp_all
    then show ?thesis by (simp add: idx np_dot_template_slice True)
  qed
qed

text \<open>
  A matrix of a single column passes both checks: each product has one column, and the
  assignment repeats it over all channels.
\<close>

lemma column_matrix_is_broadcast:
  "load_kilosort_data column_matrix_folder 30000 True False False 1 =
     Inr (example_result\<lparr>unwhitened_temps :=
            \<lparr>n_templates = 1, n_time = 2, n_chan = 2, tdata = [[[5, 5], [11, 11]]]\<rparr>\<rparr>)"
  by code_simp

text \<open>
  Claim C7, as stated, fails. The template array of this directory has shape (0, 3, 2)
  and the unwhitening matrix is three by three: the dimensions disagree, the loop over
  the templates makes no step, and the loader returns.
\<close>

theorem C7_no_templates_counterexample:
  "templates_npy no_templates_folder =
     Inr \<lparr>n_templates = 0, n_time = 3, n_chan = 2, tdata = []\<rparr> \<and>
   whitening_mat_inv_npy no_templates_folder =
     Inr \<lparr>n_rows = 3, n_cols = 3, mdata = [[1, 0, 0], [0, 1, 0], [0, 0, 1]]\<rparr> \<and>
   load_kilosort_data no_templates_folder 30000 True False False 1 =
     Inr \<lparr>spike_times = \<lparr>shape = [3], flat = [1, 2, 3]\<rparr>,
          spike_clusters = \<lparr>shape = [3], flat = [2, 0, 2]\<rparr>,
          amplitudes = \<lparr>shape = [3], flat = [10, 11, 12]\<rparr>,
          unwhitened_temps = \<lparr>n_templates = 0, n_time = 2, n_chan = 2, tdata = []\<rparr>,
          channel_map = \<lparr>shape = [2, 1], flat = [0, 1]\<rparr>,
          cluster_ids = [0, 2],
          cluster_quality = [''unsorted'', ''unsorted''],
          pcs = None\<rparr>"
  by code_simp

text \<open>
  Claim C7, amended. When there is at least one template and the unwhitening matrix
  has a number of rows other than the number of channels of the template tensor, or a
  number of columns that is neither that number nor one, the loader raises: it returns
  no result. This covers every square matrix of another dimension.
\<close>

theorem C7_mismatch_raises:
  assumes "templates_npy fld = Inr raw" and "whitening_mat_inv_npy fld = Inr W"
    and "n_rows W \<noteq> n_chan raw \<or> (n_cols W \<noteq> n_chan raw \<and> n_cols W \<noteq> 1)"
    and "0 < n_templates raw"
  shows "isl (load_kilosort_data fld sr conv mc ip p)"
proof (cases "load_kilosort_data fld sr conv mc ip p")
  case (Inl e)
  then show ?thesis by simp
next
  case (Inr b)
  let ?S = "strip_padding p raw"
  from load_kilosort_data_InrD [OF Inr] assms(1,2)
  have "unwhiten_loop [0..<n_templates ?S] ?S W
          (zeros (n_templates ?S) (n_time ?S) (n_chan ?S)) = Inr (unwhitened_temps b)"
    by auto
  moreover have "unwhiten_loop [0..<n_templates ?S] ?S W
          (zeros (n_templates ?S) (n_time ?S) (n_chan ?S)) = Inl ValueError"
    using assms(3,4)
    by (intro unwhiten_loop_mismatch) (auto simp add: strip_padding_dims zeros_def)
  ultimately show ?thesis by simp
qed

theorem C7_mismatch_raises_witness:
  "templates_npy mismatch_folder = Inr example_templates \<and>
   whitening_mat_inv_npy mismatch_folder = Inr identity3 \<and>
   n_rows identity3 = 3 \<and> n_chan example_templates = 2 \<and>
   0 < n_templates example_templates \<and>
   isl (load_kilosort_data mismatch_folder 30000 True False False 1)"
proof -
  have t: "templates_npy mismatch_folder = Inr example_templates"
    by (simp add: mismatch_folder_def example_folder_def)
  have w: "whitening_mat_inv_npy mismatch_folder = Inr identity3"
    by (simp add: mismatch_folder_def)
  have d: "n_rows identity3 \<noteq> n_chan example_templates \<or>
           (n_cols identity3 \<noteq> n_chan example_templates \<and> n_cols identity3 \<noteq> 1)"
    by (simp add: identity3_def example_templates_def)
  have n: "0 < n_templates example_templates"
    by (simp add: example_templates_def)
  have v: "n_rows identity3 = 3" "n_chan example_templates = 2"
    by (simp_all add: identity3_def example_templates_def)
  show ?thesis
    using t w v n C7_mismatch_raises [OF t w d n, of 30000 True False False 1] by simp
qed

section \<open>The quality table\<close>

lemma write_loop_012:
  "write_loop (zip [0..<length [0, 1, 2 :: int]] [0, 1, 2]) [0, 1, 2] ([], []) =
     Inr ([0, 1, 2], [''unsorted'', ''good'', ''noise''])"
  by code_simp

lemma read_written_012:
  "read_cluster_group_tsv (Inr (to_csv [0, 1, 2] [''unsorted'', ''good'', ''noise''])) =
     Inr ([0, 1, 2], [''unsorted'', ''good'', ''noise''])"
  by code_simp

text \<open>
  Claim C5. Writing the cluster ids 0, 1, 2 with the quality codes 0, 1, 2 into any
  directory of any store succeeds, and reading the file it produced returns the ids
  0, 1, 2 with the labels \<open>unsorted\<close>, \<open>good\<close>, \<open>noise\<close>, in this order.
\<close>

theorem C5_quality_table_round_trip:
  "(case write_cluster_group_tsv [0, 1, 2] [0, 1, 2] dir fs of
      Inl e \<Rightarrow> Inl e
    | Inr fs' \<Rightarrow> read_cluster_group_tsv (fs' (path_join dir ''cluster_group.tsv'')))
   = Inr ([0, 1, 2], [''unsorted'', ''good'', ''noise''])"
  by (simp add: write_cluster_group_tsv_def write_loop_012 read_written_012)






section \<open>Probe metadata round trip\<close>


text \<open>The dtype is kept as well, except that an empty integer array comes back floating.\<close>

lemma np_array_tolist_exact:
  assumes "a \<noteq> IntArray []"
  shows "np_array (tolist a) = Numeric a"
proof (cases a)
  case (IntArray xs)
  with assms have "xs \<noteq> []" by simp
  moreover have "list_all is_JInt (map JInt xs)" by (simp add: list_all_iff)
  moreover have "map int_of_json (map JInt xs) = xs" by (simp add: comp_def)
  ultimately show ?thesis using IntArray by simp
next
  case (FloatArray xs)
  have "list_all is_JNum (map JFloat xs)" by (simp add: list_all_iff)
  moreover have "map real_of_json (map JFloat xs) = xs" by (simp add: comp_def)
  moreover have "xs \<noteq> [] \<Longrightarrow> \<not> list_all is_JInt (map JFloat xs)"
    by (cases xs) simp_all
  ultimately show ?thesis using FloatArray by (cases "xs = []") simp_all
qed



end
